theory Spec2Isabelle
  imports Complex_Main
begin

section \<open>The adaptive quiz controller (\<^verbatim>\<open>tutor_api/ml/quiz_adapter.py\<close>)\<close>

text \<open>
  The class \<^verbatim>\<open>QuizAdapter\<close> is embedded method by method. Python floats are read as real
  numbers (exact arithmetic), Python ints as \<open>int\<close>. The fitted pipeline
  \<^verbatim>\<open>scaler.transform\<close> followed by \<^verbatim>\<open>difficulty_model.predict\<close> belongs to scikit-learn;
  it is a parameter of the model: a function from the feature vector to the truth value
  of \<^verbatim>\<open>should_increase\<close>. Methods that read or write \<^verbatim>\<open>self.user_performance_history\<close>
  take the adapter and return it next to their result.
\<close>

subsection \<open>Data\<close>

datatype py_error = KeyError

text \<open>The dictionary \<^verbatim>\<open>quiz_result\<close>: each key may be absent (\<open>None\<close>).\<close>

record quiz_result =
  is_correct :: "bool option"
  time_taken :: "real option"
  confidence :: "real option"

record quiz_adapter =
  difficulty_model :: "real list \<Rightarrow> bool"
  user_performance_history :: "int \<rightharpoonup> real list"

record question =
  q_id :: string
  question_text :: string
  difficulty_level :: int
  difficulty_text :: string
  topic_id :: int
  options :: "(int \<times> string) list"
  correct_option :: int
  points :: int

record evaluation =
  eval_is_correct :: bool
  score :: int
  feedback :: string
  eval_time_taken :: real
  eval_confidence :: real

record analytics =
  total_attempts :: nat
  average_score :: real
  improvement_trend :: string
  strengths :: "string list"
  weaknesses :: "string list"
  recent_performance :: "real list option"

subsection \<open>Python and numpy primitives\<close>

text \<open>\<^verbatim>\<open>d.get(key, default)\<close>\<close>

definition dict_get :: "'a option \<Rightarrow> 'a \<Rightarrow> 'a" where
  "dict_get v dflt = (case v of None \<Rightarrow> dflt | Some x \<Rightarrow> x)"

text \<open>\<^verbatim>\<open>xs[-n:]\<close> for a positive literal \<open>n\<close>, and \<^verbatim>\<open>xs[:-n]\<close>\<close>

definition py_last :: "nat \<Rightarrow> 'a list \<Rightarrow> 'a list" where
  "py_last n xs = drop (length xs - n) xs"

definition py_butlast :: "nat \<Rightarrow> 'a list \<Rightarrow> 'a list" where
  "py_butlast n xs = take (length xs - n) xs"

text \<open>\<^verbatim>\<open>np.mean\<close>; the source calls it on non-empty lists only.\<close>

definition mean :: "real list \<Rightarrow> real" where
  "mean xs = sum_list xs / real (length xs)"

text \<open>\<^verbatim>\<open>range(n)\<close>\<close>

definition py_range :: "int \<Rightarrow> int list" where
  "py_range n = map int [0..<nat n]"


text \<open>\<^verbatim>\<open>round(x, 3)\<close> on a numpy float: to the nearest multiple of 1/1000, ties to even.\<close>

definition rint :: "real \<Rightarrow> int" where
  "rint x = (let f = \<lfloor>x\<rfloor>; d = x - of_int f in
     if d < 1/2 then f else if 1/2 < d then f + 1 else if even f then f else f + 1)"

definition py_round3 :: "real \<Rightarrow> real" where
  "py_round3 x = of_int (rint (x * 1000)) / 1000"

text \<open>\<^verbatim>\<open>str(i)\<close> as used by the f-strings.\<close>

definition digit_char :: "nat \<Rightarrow> char" where
  "digit_char d = ''0123456789'' ! d"

fun str_nat :: "nat \<Rightarrow> string" where
  "str_nat n = (if n < 10 then [digit_char n] else str_nat (n div 10) @ [digit_char (n mod 10)])"

declare str_nat.simps [simp del]

definition str_int :: "int \<Rightarrow> string" where
  "str_int i = (if i < 0 then CHR ''-'' # str_nat (nat (- i)) else str_nat (nat i))"

subsection \<open>Construction\<close>

text \<open>\<^verbatim>\<open>__init__\<close>: the fitted model and an empty history dictionary.\<close>

definition init_adapter :: "(real list \<Rightarrow> bool) \<Rightarrow> quiz_adapter" where
  "init_adapter model = \<lparr>difficulty_model = model, user_performance_history = Map.empty\<rparr>"

subsection \<open>Primary path: the next difficulty\<close>

definition get_previous_performance :: "quiz_adapter \<Rightarrow> int \<Rightarrow> real \<times> quiz_adapter" where
  "get_previous_performance self user_id =
     (case user_performance_history self user_id of
        None \<Rightarrow> (0.5, self)
      | Some history \<Rightarrow>
          if length history = 0 then (0.5, self)
          else (let recent_scores = py_last 5 history in (mean recent_scores, self)))"

definition extract_features ::
    "quiz_adapter \<Rightarrow> int \<Rightarrow> quiz_result \<Rightarrow> real list \<times> quiz_adapter" where
  "extract_features self user_id qr =
     (let correctness = (if dict_get (is_correct qr) False then 1 else 0);
          max_time = 300;
          t = dict_get (time_taken qr) 0;
          time_score = max 0 (1 - t / max_time);
          conf = dict_get (confidence qr) 0.5;
          (previous_performance, self1) = get_previous_performance self user_id
      in ([correctness, time_score, conf, previous_performance], self1))"

definition calculate_performance_score :: "quiz_result \<Rightarrow> real" where
  "calculate_performance_score qr =
     (let correctness = (if dict_get (is_correct qr) False then 1 else 0);
          max_time = 300;
          t = dict_get (time_taken qr) 0;
          time_penalty = max 0 ((t / max_time) * 0.3);
          conf = dict_get (confidence qr) 0.5;
          confidence_bonus = conf * 0.2;
          score = correctness - time_penalty + confidence_bonus
      in max 0 (min 1 score))"

definition update_user_history ::
    "quiz_adapter \<Rightarrow> int \<Rightarrow> quiz_result \<Rightarrow> int \<Rightarrow> quiz_adapter" where
  "update_user_history self user_id qr new_difficulty =
     (let h0 = (case user_performance_history self user_id of None \<Rightarrow> [] | Some h \<Rightarrow> h);
          performance_score = calculate_performance_score qr;
          h1 = h0 @ [performance_score];
          h2 = (if length h1 > 20 then py_last 20 h1 else h1)
      in self\<lparr>user_performance_history := (user_performance_history self)(user_id \<mapsto> h2)\<rparr>)"

definition calculate_next_difficulty ::
    "quiz_adapter \<Rightarrow> int \<Rightarrow> int \<Rightarrow> quiz_result \<Rightarrow> int \<times> quiz_adapter" where
  "calculate_next_difficulty self user_id current_difficulty qr =
     (let (features, self1) = extract_features self user_id qr;
          should_increase = difficulty_model self1 features;
          new_difficulty =
            (if should_increase \<and> current_difficulty < 3 then current_difficulty + 1
             else if \<not> should_increase \<and> current_difficulty > 1 then current_difficulty - 1
             else current_difficulty)
      in (new_difficulty, update_user_history self1 user_id qr new_difficulty))"

subsection \<open>Secondary path: a batch of questions\<close>

definition adjust_question_difficulty ::
    "quiz_adapter \<Rightarrow> int \<Rightarrow> int \<Rightarrow> int \<Rightarrow> int \<times> quiz_adapter" where
  "adjust_question_difficulty self base_difficulty user_id question_index =
     (case user_performance_history self user_id of
        None \<Rightarrow> (base_difficulty, self)
      | Some history \<Rightarrow>
          if length history = 0 then (base_difficulty, self)
          else
            (let recent = (if length history \<ge> 3 then mean (py_last 3 history) else last history);
                 adjusted =
                   (if recent > 0.7 then min 3 (base_difficulty + 1)
                    else if recent < 0.3 then max 1 (base_difficulty - 1)
                    else base_difficulty)
             in (max 1 (min 3 adjusted), self)))"

definition difficulty_texts :: "(int \<times> string) list" where
  "difficulty_texts = [(1, ''Beginner''), (2, ''Intermediate''), (3, ''Advanced'')]"

definition question_templates :: "int \<Rightarrow> (int \<times> string) list" where
  "question_templates topic =
     [(1, ''What is the basic concept of topic '' @ str_int topic @ ''?''),
      (2, ''How does topic '' @ str_int topic @ '' relate to other concepts?''),
      (3, ''Explain the advanced applications of topic '' @ str_int topic @ ''.'')]"

text \<open>\<^verbatim>\<open>difficulty_texts[difficulty]\<close> raises \<^verbatim>\<open>KeyError\<close> outside 1, 2, 3.\<close>

definition generate_sample_question :: "int \<Rightarrow> int \<Rightarrow> int \<Rightarrow> py_error + question" where
  "generate_sample_question topic difficulty question_num =
     (case map_of difficulty_texts difficulty of
        None \<Rightarrow> Inl KeyError
      | Some dtext \<Rightarrow>
          Inr \<lparr>q_id = ''q_'' @ str_int topic @ ''_'' @ str_int question_num,
               question_text =
                 dict_get (map_of (question_templates topic) difficulty)
                   (snd (hd (question_templates topic))),
               difficulty_level = difficulty,
               difficulty_text = dtext,
               topic_id = topic,
               options =
                 [(1, ''Option A for question '' @ str_int question_num),
                  (2, ''Option B for question '' @ str_int question_num),
                  (3, ''Option C for question '' @ str_int question_num),
                  (4, ''Option D for question '' @ str_int question_num)],
               correct_option = 1,
               points = difficulty\<rparr>)"

text \<open>The body of the \<^verbatim>\<open>for i in range(num_questions)\<close> loop, over the remaining indices.\<close>

fun questions_loop ::
    "quiz_adapter \<Rightarrow> int \<Rightarrow> int \<Rightarrow> int \<Rightarrow> int list \<Rightarrow> question list
       \<Rightarrow> (py_error + question list) \<times> quiz_adapter" where
  "questions_loop self topic user_id current_difficulty [] questions = (Inr questions, self)"
| "questions_loop self topic user_id current_difficulty (i # rest) questions =
     (let (question_difficulty, self1) =
            adjust_question_difficulty self current_difficulty user_id i
      in case generate_sample_question topic question_difficulty (i + 1) of
           Inl e \<Rightarrow> (Inl e, self1)
         | Inr q \<Rightarrow> questions_loop self1 topic user_id current_difficulty rest (questions @ [q]))"

definition get_adaptive_questions ::
    "quiz_adapter \<Rightarrow> int \<Rightarrow> int \<Rightarrow> int \<Rightarrow> int \<Rightarrow> (py_error + question list) \<times> quiz_adapter" where
  "get_adaptive_questions self topic user_id current_difficulty num_questions =
     questions_loop self topic user_id current_difficulty (py_range num_questions) []"

subsection \<open>Scoring one answer\<close>



subsection \<open>Analytics\<close>

definition empty_analytics :: analytics where
  "empty_analytics =
     \<lparr>total_attempts = 0, average_score = 0, improvement_trend = ''stable'',
      strengths = [], weaknesses = [], recent_performance = None\<rparr>"

definition get_performance_analytics :: "quiz_adapter \<Rightarrow> int \<Rightarrow> analytics \<times> quiz_adapter" where
  "get_performance_analytics self user_id =
     (case user_performance_history self user_id of
        None \<Rightarrow> (empty_analytics, self)
      | Some history \<Rightarrow>
          if length history = 0 then (empty_analytics, self)
          else
            (let avg = mean history;
                 trend =
                   (if length history \<ge> 3 then
                      (let recent_avg = mean (py_last 3 history);
                           earlier_avg =
                             (if length history > 3 then mean (py_butlast 3 history)
                              else hd history)
                       in if recent_avg > earlier_avg + 0.1 then ''improving''
                          else if recent_avg < earlier_avg - 0.1 then ''declining''
                          else ''stable'')
                    else ''stable'');
                 strengths0 = (if avg > 0.7 then [''Consistent high performance''] else []);
                 weaknesses0 = (if avg < 0.4 then [''Need for fundamental review''] else [])
             in (\<lparr>total_attempts = length history, average_score = py_round3 avg,
                  improvement_trend = trend, strengths = strengths0, weaknesses = weaknesses0,
                  recent_performance =
                    Some (if length history \<ge> 5 then py_last 5 history else history)\<rparr>,
                 self)))"

subsection \<open>A sequence of submitted answers\<close>

text \<open>
  One \<^verbatim>\<open>calculate_next_difficulty\<close> call per element \<open>(user_id, current_difficulty,
  quiz_result)\<close>, in order, on the same adapter.
\<close>

fun submit_all :: "quiz_adapter \<Rightarrow> (int \<times> int \<times> quiz_result) list \<Rightarrow> quiz_adapter" where
  "submit_all self [] = self"
| "submit_all self ((u, d, qr) # cs) = submit_all (snd (calculate_next_difficulty self u d qr)) cs"

text \<open>The performance scores appended for user \<open>u\<close> by such a sequence, in order.\<close>

definition scores_of :: "int \<Rightarrow> (int \<times> int \<times> quiz_result) list \<Rightarrow> real list" where
  "scores_of u cs = map (\<lambda>(_, _, qr). calculate_performance_score qr) (filter (\<lambda>(v, _, _). v = u) cs)"

subsection \<open>The performance score as the specification words it\<close>

text \<open>
  These two definitions follow the specification's formula, not the source: they are what
  \<^verbatim>\<open>_calculate_performance_score\<close> is compared with.
\<close>

definition clamp01 :: "real \<Rightarrow> real" where
  "clamp01 x = max 0 (min 1 x)"

definition performance_score_spec :: "bool \<Rightarrow> real \<Rightarrow> real \<Rightarrow> real" where
  "performance_score_spec correct t conf =
     clamp01 ((if correct then 1 else 0) - max 0 (t / 300 * 0.3) + conf * 0.2)"

section \<open>Shared facts\<close>

lemma snd_extract_features: "snd (extract_features self u qr) = self"
  by (simp add: extract_features_def get_previous_performance_def Let_def
      split: option.splits prod.splits)

lemma history_after_update:
  "user_performance_history (update_user_history self u qr d) v =
     (if v = u then
        Some (py_last 20 ((case user_performance_history self u of None \<Rightarrow> [] | Some h \<Rightarrow> h)
                @ [calculate_performance_score qr]))
      else user_performance_history self v)"
  by (simp add: update_user_history_def Let_def py_last_def)

lemma history_after_submit:
  "user_performance_history (snd (calculate_next_difficulty self u d qr)) v =
     (if v = u then
        Some (py_last 20 ((case user_performance_history self u of None \<Rightarrow> [] | Some h \<Rightarrow> h)
                @ [calculate_performance_score qr]))
      else user_performance_history self v)"
proof -
  obtain f s where fs: "extract_features self u qr = (f, s)"
    by (cases "extract_features self u qr")
  then have "s = self"
    using snd_extract_features [of self u qr] by simp
  with fs show ?thesis
    by (simp add: calculate_next_difficulty_def Let_def history_after_update)
qed

lemma submit_all_snoc:
  "submit_all self (cs @ [(u, d, qr)]) =
     snd (calculate_next_difficulty (submit_all self cs) u d qr)"
  by (induction self cs rule: submit_all.induct) simp_all

lemma py_last_absorb: "py_last 20 (py_last 20 xs @ [x]) = py_last 20 (xs @ [x])"
proof -
  have "length xs - (length xs - 20 + 19) + (length xs - 20) = length xs - 19"
    by arith
  then show ?thesis
    by (simp add: py_last_def)
qed

lemma py_last_append_long: "n \<le> length ys \<Longrightarrow> py_last n (xs @ ys) = py_last n ys"
  by (simp add: py_last_def)

text \<open>Calls for other users leave a user's history as it was.\<close>

lemma submit_all_other:
  "scores_of u cs = [] \<Longrightarrow>
   user_performance_history (submit_all self cs) u = user_performance_history self u"
proof (induction cs rule: rev_induct)
  case Nil
  then show ?case by simp
next
  case (snoc c cs)
  obtain v d qr where c: "c = (v, d, qr)" by (cases c)
  with snoc show ?case
    by (auto simp: submit_all_snoc history_after_submit scores_of_def split: if_splits)
qed

text \<open>
  After at least one call for \<open>u\<close>, the history is the old one extended by the new scores,
  cut to its last 20 entries.
\<close>

lemma submit_all_history:
  "scores_of u cs \<noteq> [] \<Longrightarrow>
   user_performance_history (submit_all self cs) u =
     Some (py_last 20
       ((case user_performance_history self u of None \<Rightarrow> [] | Some h \<Rightarrow> h) @ scores_of u cs))"
proof (induction cs rule: rev_induct)
  case Nil
  then show ?case by (simp add: scores_of_def)
next
  case (snoc c cs)
  obtain v d qr where c: "c = (v, d, qr)" by (cases c)
  show ?case
  proof (cases "v = u")
    case False
    with c have "scores_of u (cs @ [c]) = scores_of u cs"
      by (simp add: scores_of_def)
    with snoc False c show ?thesis
      by (simp add: submit_all_snoc history_after_submit)
  next
    case True
    with c have sc: "scores_of u (cs @ [c]) = scores_of u cs @ [calculate_performance_score qr]"
      by (simp add: scores_of_def)
    show ?thesis
    proof (cases "scores_of u cs = []")
      case True
      with sc c \<open>v = u\<close> show ?thesis
        by (simp add: submit_all_snoc history_after_submit submit_all_other)
    next
      case False
      with snoc.IH sc c \<open>v = u\<close> show ?thesis
        by (simp add: submit_all_snoc history_after_submit py_last_absorb)
    qed
  qed
qed

lemma performance_score_bounds:
  "0 \<le> calculate_performance_score qr \<and> calculate_performance_score qr \<le> 1"
  by (simp add: calculate_performance_score_def Let_def)

lemma set_py_last: "set (py_last n xs) \<subseteq> set xs"
  by (simp add: py_last_def set_drop_subset)

lemma last_py_last_snoc: "py_last 20 (xs @ [x]) \<noteq> [] \<and> last (py_last 20 (xs @ [x])) = x"
  by (simp add: py_last_def)

lemma submit_keeps_unit:
  assumes "\<forall>v h. user_performance_history self v = Some h \<longrightarrow> (\<forall>x\<in>set h. 0 \<le> x \<and> x \<le> 1)"
  shows "\<forall>v h. user_performance_history (snd (calculate_next_difficulty self u d qr)) v = Some h
            \<longrightarrow> (\<forall>x\<in>set h. 0 \<le> x \<and> x \<le> 1)"
proof (intro allI impI ballI)
  fix v h x
  assume h: "user_performance_history (snd (calculate_next_difficulty self u d qr)) v = Some h"
    and x: "x \<in> set h"
  show "0 \<le> x \<and> x \<le> 1"
  proof (cases "v = u")
    case False
    with h have "user_performance_history self v = Some h"
      by (simp add: history_after_submit)
    with assms x show ?thesis by blast
  next
    case True
    let ?h0 = "case user_performance_history self u of None \<Rightarrow> [] | Some h \<Rightarrow> h"
    from True h have "h = py_last 20 (?h0 @ [calculate_performance_score qr])"
      by (simp add: history_after_submit)
    with x set_py_last [of 20 "?h0 @ [calculate_performance_score qr]"]
    have "x \<in> set ?h0 \<or> x = calculate_performance_score qr" by auto
    then show ?thesis
    proof
      assume "x \<in> set ?h0"
      with assms show ?thesis by (cases "user_performance_history self u") auto
    next
      assume "x = calculate_performance_score qr"
      then show ?thesis using performance_score_bounds [of qr] by simp
    qed
  qed
qed

lemma submit_all_unit:
  "\<forall>v h. user_performance_history (submit_all (init_adapter m) cs) v = Some h
            \<longrightarrow> (\<forall>x\<in>set h. 0 \<le> x \<and> x \<le> 1)"
proof (induction cs rule: rev_induct)
  case Nil
  then show ?case by (simp add: init_adapter_def)
next
  case (snoc c cs)
  obtain u d qr where c: "c = (u, d, qr)" by (cases c)
  from submit_keeps_unit [OF snoc] show ?case
    unfolding c submit_all_snoc by blast
qed

lemma sum_list_unit:
  "\<forall>x\<in>set xs. 0 \<le> x \<and> x \<le> (1::real) \<Longrightarrow> 0 \<le> sum_list xs \<and> sum_list xs \<le> real (length xs)"
  by (induction xs) auto

lemma mean_unit:
  assumes "xs \<noteq> []" "\<forall>x\<in>set xs. 0 \<le> x \<and> x \<le> (1::real)"
  shows "0 \<le> mean xs \<and> mean xs \<le> 1"
proof -
  from assms(1) have "0 < real (length xs)" by simp
  with sum_list_unit [OF assms(2)] show ?thesis
    by (simp add: mean_def divide_le_eq)
qed

lemma previous_performance_unit:
  assumes "\<forall>h. user_performance_history self u = Some h \<longrightarrow> (\<forall>x\<in>set h. 0 \<le> x \<and> x \<le> 1)"
  shows "0 \<le> fst (get_previous_performance self u) \<and> fst (get_previous_performance self u) \<le> 1"
proof (cases "user_performance_history self u")
  case None
  then show ?thesis by (simp add: get_previous_performance_def)
next
  case (Some h)
  show ?thesis
  proof (cases "h = []")
    case True
    with Some show ?thesis by (simp add: get_previous_performance_def)
  next
    case False
    then have "0 < length h" by simp
    then have "length h - 5 < length h" by arith
    then have ne: "py_last 5 h \<noteq> []" by (simp add: py_last_def)
    from assms Some set_py_last [of 5 h] have "\<forall>x\<in>set (py_last 5 h). 0 \<le> x \<and> x \<le> 1"
      by auto
    from mean_unit [OF ne this] Some False show ?thesis
      by (simp add: get_previous_performance_def Let_def)
  qed
qed

lemma extract_features_eq:
  "fst (extract_features self u qr) =
     [if dict_get (is_correct qr) False then 1 else 0,
      max 0 (1 - dict_get (time_taken qr) 0 / 300),
      dict_get (confidence qr) 0.5,
      fst (get_previous_performance self u)]"
  by (simp add: extract_features_def Let_def split: prod.splits)

text \<open>The batch path: no method on it changes the adapter, and the index is not used.\<close>

lemma snd_adjust: "snd (adjust_question_difficulty self b u i) = self"
  by (simp add: adjust_question_difficulty_def Let_def split: option.splits)

lemma adjust_index_free:
  "adjust_question_difficulty self b u i = adjust_question_difficulty self b u 0"
  by (simp add: adjust_question_difficulty_def)

lemma adjust_pair:
  "adjust_question_difficulty self b u i = (fst (adjust_question_difficulty self b u 0), self)"
  using snd_adjust [of self b u i] adjust_index_free [of self b u i]
  by (metis prod.collapse)

lemma adjust_in_range:
  "b \<in> {1, 2, 3} \<Longrightarrow> fst (adjust_question_difficulty self b u i) \<in> {1, 2, 3}"
  by (auto simp: adjust_question_difficulty_def Let_def split: option.splits)

lemma generate_Inr:
  "generate_sample_question topic d k = Inr q \<Longrightarrow> difficulty_level q = d"
  by (auto simp: generate_sample_question_def split: option.splits)

lemma generate_ok:
  "d \<in> {1, 2, 3} \<Longrightarrow> \<exists>q. generate_sample_question topic d k = Inr q"
  by (auto simp: generate_sample_question_def difficulty_texts_def)

lemma snd_questions_loop: "snd (questions_loop self topic u cur is qs) = self"
proof (induction "is" arbitrary: qs)
  case Nil
  then show ?case by simp
next
  case (Cons i "is")
  then show ?case
    by (simp add: adjust_pair [of self cur u i] split: sum.splits)
qed

lemma questions_loop_result:
  "fst (questions_loop self topic u cur is qs) = Inr r \<Longrightarrow>
   \<exists>new. r = qs @ new \<and> length new = length is
      \<and> (\<forall>q\<in>set new. difficulty_level q = fst (adjust_question_difficulty self cur u 0))"
proof (induction "is" arbitrary: qs)
  case Nil
  then show ?case by simp
next
  case (Cons i "is")
  let ?d = "fst (adjust_question_difficulty self cur u 0)"
  show ?case
  proof (cases "generate_sample_question topic ?d (i + 1)")
    case (Inl e)
    with Cons.prems show ?thesis
      by (simp add: adjust_pair [of self cur u i])
  next
    case (Inr q)
    with Cons.prems have "fst (questions_loop self topic u cur is (qs @ [q])) = Inr r"
      by (simp add: adjust_pair [of self cur u i])
    from Cons.IH [OF this] obtain new where
      new: "r = (qs @ [q]) @ new" "length new = length is" "\<forall>q\<in>set new. difficulty_level q = ?d"
      by blast
    from Inr have "difficulty_level q = ?d" by (rule generate_Inr)
    with new have "r = qs @ (q # new) \<and> length (q # new) = length (i # is)
        \<and> (\<forall>q\<in>set (q # new). difficulty_level q = ?d)"
      by simp
    then show ?thesis by blast
  qed
qed

lemma questions_loop_returns:
  "fst (adjust_question_difficulty self cur u 0) \<in> {1, 2, 3} \<Longrightarrow>
   \<exists>r. fst (questions_loop self topic u cur is qs) = Inr r"
proof (induction "is" arbitrary: qs)
  case Nil
  then show ?case by simp
next
  case (Cons i "is")
  from generate_ok [OF Cons.prems] obtain q where
    "generate_sample_question topic (fst (adjust_question_difficulty self cur u 0)) (i + 1) = Inr q"
    by blast
  with Cons.IH [OF Cons.prems, of "qs @ [q]"] show ?case
    by (simp add: adjust_pair [of self cur u i])
qed

lemma batch_result:
  "fst (get_adaptive_questions self topic u cur n) = Inr r \<Longrightarrow>
   length r = nat n \<and> (\<forall>q\<in>set r. difficulty_level q = fst (adjust_question_difficulty self cur u 0))"
  using questions_loop_result [of self topic u cur "py_range n" "[]" r]
  by (auto simp: get_adaptive_questions_def py_range_def)

lemma batch_levels:
  assumes "fst (adjust_question_difficulty self cur u 0) \<in> {1, 2, 3}"
  shows "\<exists>r. fst (get_adaptive_questions self topic u cur n) = Inr r
     \<and> map difficulty_level r = replicate (nat n) (fst (adjust_question_difficulty self cur u 0))"
proof -
  from questions_loop_returns [OF assms, of topic "py_range n" "[]"] obtain r where
    r: "fst (get_adaptive_questions self topic u cur n) = Inr r"
    by (auto simp: get_adaptive_questions_def)
  let ?d = "fst (adjust_question_difficulty self cur u 0)"
  from batch_result [OF r] have len: "length r = nat n"
    and lev: "\<forall>q\<in>set r. difficulty_level q = ?d"
    by simp_all
  from lev have "map difficulty_level r = map (\<lambda>_. ?d) r"
    by (intro map_cong) simp_all
  also have "\<dots> = replicate (length r) ?d"
    by (rule map_replicate_const)
  finally have "map difficulty_level r = replicate (nat n) ?d"
    using len by simp
  with r show ?thesis by blast
qed


lemma py_range_2: "py_range 2 = [0, 1]"
  by (simp add: py_range_def upt_rec)

section \<open>Difficulty transitions\<close>

text \<open>
  C1. For a current difficulty of 1, 2 or 3 and any quiz result,
  \<^verbatim>\<open>calculate_next_difficulty\<close> returns a level in 1, 2, 3 at most one step away from the
  current one: one up when the model predicts an increase and the level is below 3, one
  down when it predicts a decrease and the level is above 1, unchanged otherwise. This
  holds for every fitted model and every adapter state.
\<close>

theorem next_difficulty_step:
  assumes "d \<in> {1, 2, 3}"
  shows "fst (calculate_next_difficulty self u d qr) \<in> {1, 2, 3}
    \<and> \<bar>fst (calculate_next_difficulty self u d qr) - d\<bar> \<le> 1
    \<and> fst (calculate_next_difficulty self u d qr) =
        (let inc = difficulty_model self (fst (extract_features self u qr)) in
         if inc \<and> d < 3 then d + 1 else if \<not> inc \<and> d > 1 then d - 1 else d)"
proof -
  obtain f s where fs: "extract_features self u qr = (f, s)"
    by (cases "extract_features self u qr")
  then have "s = self"
    using snd_extract_features [of self u qr] by simp
  with fs assms show ?thesis
    by (auto simp: calculate_next_difficulty_def Let_def)
qed

theorem next_difficulty_step_witness:
  "(2::int) \<in> {1, 2, 3}
   \<and> fst (calculate_next_difficulty (init_adapter (\<lambda>f. f ! 0 = 1)) 7 2
        \<lparr>is_correct = Some True, time_taken = Some 30, confidence = Some 0.9\<rparr>) = 3
   \<and> fst (calculate_next_difficulty (init_adapter (\<lambda>f. f ! 0 = 1)) 7 2
        \<lparr>is_correct = Some False, time_taken = Some 30, confidence = Some 0.9\<rparr>) = 1"
proof -
  have h: "(2::int) \<in> {1, 2, 3}" by simp
  show ?thesis
    using next_difficulty_step [OF h, of "init_adapter (\<lambda>f. f ! 0 = 1)" 7
        "\<lparr>is_correct = Some True, time_taken = Some 30, confidence = Some 0.9\<rparr>"]
      next_difficulty_step [OF h, of "init_adapter (\<lambda>f. f ! 0 = 1)" 7
        "\<lparr>is_correct = Some False, time_taken = Some 30, confidence = Some 0.9\<rparr>"]
    by (simp add: init_adapter_def extract_features_def get_previous_performance_def
        dict_get_def Let_def)
qed

section \<open>The bounded history\<close>

text \<open>
  C2. After any sequence of \<^verbatim>\<open>calculate_next_difficulty\<close> calls of which more than 20
  are for user \<open>u\<close>, whatever the adapter held before, the stored history of \<open>u\<close> has
  exactly 20 entries: the 20 most recently appended performance scores, in the order
  they were appended.
\<close>

theorem history_window:
  assumes "length (scores_of u cs) > 20"
  shows "user_performance_history (submit_all self cs) u = Some (py_last 20 (scores_of u cs))
         \<and> length (py_last 20 (scores_of u cs)) = 20"
proof -
  from assms have ne: "scores_of u cs \<noteq> []" by auto
  from assms have
    "py_last 20 ((case user_performance_history self u of None \<Rightarrow> [] | Some h \<Rightarrow> h)
        @ scores_of u cs) = py_last 20 (scores_of u cs)"
    by (intro py_last_append_long) simp
  with submit_all_history [OF ne, of self] assms show ?thesis
    by (simp add: py_last_def)
qed

theorem history_window_witness:
  "20 < length (scores_of 1 (map (\<lambda>i. (1::int, 2::int,
        \<lparr>is_correct = Some (even i), time_taken = Some (real i), confidence = None\<rparr>)) [0..<25]))
   \<and> user_performance_history (submit_all (init_adapter (\<lambda>_. True))
        (map (\<lambda>i. (1::int, 2::int,
        \<lparr>is_correct = Some (even i), time_taken = Some (real i), confidence = None\<rparr>)) [0..<25])) 1
     = Some (map (\<lambda>i. calculate_performance_score
           \<lparr>is_correct = Some (even i), time_taken = Some (real i), confidence = None\<rparr>) [5..<25])"
proof -
  let ?cs = "map (\<lambda>i. (1::int, 2::int,
        \<lparr>is_correct = Some (even i), time_taken = Some (real i), confidence = None\<rparr>)) [0..<25]"
  have h: "20 < length (scores_of 1 ?cs)"
    by (simp add: scores_of_def filter_map comp_def)
  have s: "scores_of 1 ?cs = map (\<lambda>i. calculate_performance_score
           \<lparr>is_correct = Some (even i), time_taken = Some (real i), confidence = None\<rparr>) [0..<25]"
    by (simp add: scores_of_def filter_map comp_def)
  have d: "drop 5 [0..<25] = [5..<25]" by simp
  show ?thesis
    using h history_window [OF h, of "init_adapter (\<lambda>_. True)"]
    by (simp only: s py_last_def length_map length_upt drop_map d) simp
qed

section \<open>The performance score\<close>

text \<open>
  C6. The performance score of a quiz result is
  \<open>clamp01 (correctness - time_penalty + confidence_bonus)\<close> with
  \<open>time_penalty = max 0 (time_taken / 300 * 0.3)\<close> and
  \<open>confidence_bonus = confidence * 0.2\<close>; it is the value
  \<^verbatim>\<open>calculate_next_difficulty\<close> appends to the user's history; and every value in any
  history reached from a fresh adapter by any sequence of such calls lies in \<open>[0, 1]\<close>.
\<close>

theorem performance_score_formula:
  "calculate_performance_score qr =
     performance_score_spec (dict_get (is_correct qr) False) (dict_get (time_taken qr) 0)
       (dict_get (confidence qr) 0.5)
   \<and> (\<exists>h. user_performance_history (snd (calculate_next_difficulty self u d qr)) u = Some h
          \<and> h \<noteq> [] \<and> last h = calculate_performance_score qr)
   \<and> (user_performance_history (submit_all (init_adapter m) cs) v = Some hist
        \<longrightarrow> (\<forall>x\<in>set hist. 0 \<le> x \<and> x \<le> 1))"
proof (intro conjI)
  show "calculate_performance_score qr =
     performance_score_spec (dict_get (is_correct qr) False) (dict_get (time_taken qr) 0)
       (dict_get (confidence qr) 0.5)"
    by (simp add: calculate_performance_score_def performance_score_spec_def clamp01_def Let_def)
  show "\<exists>h. user_performance_history (snd (calculate_next_difficulty self u d qr)) u = Some h
          \<and> h \<noteq> [] \<and> last h = calculate_performance_score qr"
    by (simp add: history_after_submit last_py_last_snoc)
  show "user_performance_history (submit_all (init_adapter m) cs) v = Some hist
        \<longrightarrow> (\<forall>x\<in>set hist. 0 \<le> x \<and> x \<le> 1)"
    using submit_all_unit [of m cs] by blast
qed

theorem performance_score_formula_witness:
  "user_performance_history (submit_all (init_adapter (\<lambda>_. True))
      [(1, 2, \<lparr>is_correct = Some True, time_taken = Some 0, confidence = Some 0.5\<rparr>),
       (1, 3, \<lparr>is_correct = Some False, time_taken = Some 600, confidence = Some 0.5\<rparr>)]) 1
     = Some [1, 0]
   \<and> list_all (\<lambda>x. 0 \<le> x \<and> x \<le> 1) [1, 0::real]"
  using performance_score_formula [of
      "\<lparr>is_correct = Some True, time_taken = Some 0, confidence = Some 0.5\<rparr>"
      "init_adapter (\<lambda>_. True)" 1 2 "\<lambda>_. True"
      "[(1, 2, \<lparr>is_correct = Some True, time_taken = Some 0, confidence = Some 0.5\<rparr>),
       (1, 3, \<lparr>is_correct = Some False, time_taken = Some 600, confidence = Some 0.5\<rparr>)]"
      1 "[1, 0]"]
  by (simp add: history_after_submit init_adapter_def calculate_performance_score_def
      dict_get_def py_last_def Let_def)

section \<open>Feature extraction\<close>

text \<open>
  C8. For a quiz result whose time taken is non-negative and whose confidence lies in
  \<open>[0, 1]\<close> (absent keys take their defaults), and a history of the user whose entries
  lie in \<open>[0, 1]\<close>, the feature vector has four components, each in \<open>[0, 1]\<close>. At the
  boundary times 0, 300 and 10000 the time score is 1, 0 and 0.
\<close>

theorem features_unit:
  assumes "\<forall>t. time_taken qr = Some t \<longrightarrow> 0 \<le> t"
    and "\<forall>c. confidence qr = Some c \<longrightarrow> 0 \<le> c \<and> c \<le> 1"
    and "\<forall>h. user_performance_history self u = Some h \<longrightarrow> (\<forall>x\<in>set h. 0 \<le> x \<and> x \<le> 1)"
  shows "length (fst (extract_features self u qr)) = 4
    \<and> (\<forall>x\<in>set (fst (extract_features self u qr)). 0 \<le> x \<and> x \<le> 1)
    \<and> (time_taken qr = Some 0 \<longrightarrow> fst (extract_features self u qr) ! 1 = 1)
    \<and> (time_taken qr = Some 300 \<longrightarrow> fst (extract_features self u qr) ! 1 = 0)
    \<and> (time_taken qr = Some 10000 \<longrightarrow> fst (extract_features self u qr) ! 1 = 0)"
proof -
  have t: "0 \<le> dict_get (time_taken qr) 0"
    using assms(1) by (cases "time_taken qr") (simp_all add: dict_get_def)
  have c: "0 \<le> dict_get (confidence qr) 0.5 \<and> dict_get (confidence qr) 0.5 \<le> 1"
    using assms(2) by (cases "confidence qr") (simp_all add: dict_get_def)
  from t have ts: "max 0 (1 - dict_get (time_taken qr) 0 / 300) \<le> 1" by simp
  show ?thesis
    using ts c previous_performance_unit [OF assms(3)]
    by (simp add: extract_features_eq dict_get_def)
qed

theorem features_unit_witness:
  "time_taken \<lparr>is_correct = Some True, time_taken = Some 10000, confidence = Some 0.9\<rparr>
     = Some 10000
   \<and> (0::real) \<le> 10000
   \<and> confidence \<lparr>is_correct = Some True, time_taken = Some 10000, confidence = Some 0.9\<rparr>
     = Some 0.9
   \<and> (0::real) \<le> 0.9 \<and> (0.9::real) \<le> 1
   \<and> user_performance_history
        \<lparr>difficulty_model = (\<lambda>_. True), user_performance_history = [1 \<mapsto> [1, 0]]\<rparr> 1
     = Some [1, 0]
   \<and> list_all (\<lambda>x. 0 \<le> x \<and> x \<le> 1) [1, 0::real]
   \<and> fst (extract_features
          \<lparr>difficulty_model = (\<lambda>_. True), user_performance_history = [1 \<mapsto> [1, 0]]\<rparr> 1
          \<lparr>is_correct = Some True, time_taken = Some 10000, confidence = Some 0.9\<rparr>)
       = [1, 0, 0.9, 0.5]"
proof -
  let ?qr = "\<lparr>is_correct = Some True, time_taken = Some 10000, confidence = Some 0.9\<rparr>"
  let ?self = "\<lparr>difficulty_model = (\<lambda>_. True), user_performance_history = [1 \<mapsto> [1, 0]]\<rparr>"
  have h1: "\<forall>t. time_taken ?qr = Some t \<longrightarrow> 0 \<le> t" by simp
  have h2: "\<forall>c. confidence ?qr = Some c \<longrightarrow> 0 \<le> c \<and> c \<le> 1" by simp
  have h3: "\<forall>h. user_performance_history ?self 1 = Some h \<longrightarrow> (\<forall>x\<in>set h. 0 \<le> x \<and> x \<le> 1)"
    by simp
  show ?thesis
    using features_unit [OF h1 h2 h3]
    by (simp add: extract_features_eq get_previous_performance_def dict_get_def py_last_def
        mean_def)
qed

section \<open>Out-of-range inputs\<close>




section \<open>Scoring one answer\<close>



section \<open>Analytics flags\<close>




section \<open>The per-question adjustment\<close>




section \<open>Read paths leave the adapter unchanged\<close>

text \<open>
  C9. \<^verbatim>\<open>get_performance_analytics\<close>, \<^verbatim>\<open>_adjust_question_difficulty\<close> and
  \<^verbatim>\<open>get_adaptive_questions\<close> return the adapter they were given, also when the batch path
  raises; so a repeated call, or a call after one of the others, gives the same result.
\<close>

theorem read_paths_frame:
  "snd (get_performance_analytics self u) = self
   \<and> snd (adjust_question_difficulty self b u i) = self
   \<and> snd (get_adaptive_questions self topic u cur n) = self
   \<and> get_performance_analytics (snd (get_performance_analytics self u)) u
       = get_performance_analytics self u
   \<and> get_adaptive_questions (snd (get_adaptive_questions self topic u cur n)) topic u cur n
       = get_adaptive_questions self topic u cur n
   \<and> get_performance_analytics (snd (get_adaptive_questions self topic u cur n)) v
       = get_performance_analytics self v
   \<and> get_adaptive_questions (snd (get_performance_analytics self v)) topic u cur n
       = get_adaptive_questions self topic u cur n"
proof -
  have a: "snd (get_performance_analytics self w) = self" for w
    by (simp add: get_performance_analytics_def Let_def split: option.splits)
  have q: "snd (get_adaptive_questions self topic u cur n) = self"
    by (simp add: get_adaptive_questions_def snd_questions_loop)
  show ?thesis
    by (simp add: a q snd_adjust)
qed

section \<open>One difficulty per batch\<close>

text \<open>
  C10, as the code has it. Whenever \<^verbatim>\<open>get_adaptive_questions\<close> returns a list, it has
  \<open>max 0 num_questions\<close> entries and all of them carry the same difficulty level; and it
  does return a list whenever the current difficulty is 1, 2 or 3.
\<close>

theorem batch_uniform:
  "(fst (get_adaptive_questions self topic u cur n) = Inr qs \<longrightarrow>
      int (length qs) = max 0 n
      \<and> (\<forall>q\<in>set qs. \<forall>q'\<in>set qs. difficulty_level q = difficulty_level q'))
   \<and> (cur \<in> {1, 2, 3} \<longrightarrow> (\<exists>r. fst (get_adaptive_questions self topic u cur n) = Inr r))"
proof (intro conjI impI)
  assume r: "fst (get_adaptive_questions self topic u cur n) = Inr qs"
  from batch_result [OF r] show "int (length qs) = max 0 n" by auto
  from batch_result [OF r]
  show "\<forall>q\<in>set qs. \<forall>q'\<in>set qs. difficulty_level q = difficulty_level q'" by simp
next
  assume "cur \<in> {1, 2, 3}"
  then have "fst (adjust_question_difficulty self cur u 0) \<in> {1, 2, 3}"
    by (rule adjust_in_range)
  from batch_levels [OF this, of topic n]
  show "\<exists>r. fst (get_adaptive_questions self topic u cur n) = Inr r" by blast
qed

theorem batch_uniform_witness:
  "fst (get_adaptive_questions (init_adapter (\<lambda>_. True)) 12 1 2 2) =
     Inr [\<lparr>q_id = ''q_12_1'',
          question_text = ''How does topic 12 relate to other concepts?'',
          difficulty_level = 2, difficulty_text = ''Intermediate'',
          topic_id = 12,
          options =
            [(1, ''Option A for question 1''),
             (2, ''Option B for question 1''),
             (3, ''Option C for question 1''),
             (4, ''Option D for question 1'')],
          correct_option = 1, points = 2\<rparr>,
       \<lparr>q_id = ''q_12_2'',
          question_text = ''How does topic 12 relate to other concepts?'',
          difficulty_level = 2, difficulty_text = ''Intermediate'',
          topic_id = 12,
          options =
            [(1, ''Option A for question 2''),
             (2, ''Option B for question 2''),
             (3, ''Option C for question 2''),
             (4, ''Option D for question 2'')],
          correct_option = 1, points = 2\<rparr>]
   \<and> (2::int) \<in> {1, 2, 3}"
  using batch_uniform [of "init_adapter (\<lambda>_. True)" 12 1 2 2]
  by (simp add: get_adaptive_questions_def py_range_2 adjust_question_difficulty_def
      init_adapter_def generate_sample_question_def difficulty_texts_def question_templates_def
      dict_get_def str_int_def str_nat.simps digit_char_def)

text \<open>
  C10 as stated fails for a negative count: \<^verbatim>\<open>range(-1)\<close> is empty, so the list returned
  has 0 entries, not \<open>-1\<close>.
\<close>

theorem batch_uniform_counterexample:
  "fst (get_adaptive_questions (init_adapter (\<lambda>_. True)) 1 1 2 (- 1)) = Inr []
   \<and> int (length ([] :: question list)) \<noteq> - 1"
  by (simp add: get_adaptive_questions_def py_range_def)

end
